theory Spec2Isabelle
  imports Complex_Main "HOL-Library.Sublist"
begin

section \<open>Python strings\<close>

text \<open>
  A Python \<open>str\<close> is a sequence of Unicode code points, and \<open>len\<close> counts code points.
  It is modelled as a list of natural numbers; \<open>u\<close> turns an ASCII literal into that form.
\<close>

type_synonym pystr = "nat list"

definition u :: "string \<Rightarrow> pystr" where
  "u s = map of_char s"

section \<open>ModelSelector: \<open>AIServiceManager.select_best_model\<close>\<close>

datatype ModelType =
    GROQ_LLAMA | GROQ_MIXTRAL | GROQ_GEMMA
  | OPENAI_GPT4 | OPENAI_GPT35 | OPENAI_GPT4_TURBO

datatype ContentType = EDUCATIONAL | TECHNICAL | CREATIVE | ANALYTICAL

text \<open>The exceptions that leave \<open>generate_enhanced_content\<close>; all four are \<open>ValueError\<close>s
  in the source, told apart here by their message.\<close>

datatype error =
    NoModelsAvailable            \<comment> \<open>\<open>ValueError("No AI models available")\<close>\<close>
  | UnsupportedModel ModelType   \<comment> \<open>\<open>ValueError(f"Unsupported model: {model}")\<close>\<close>
  | GroqClientNotInitialized     \<comment> \<open>\<open>ValueError("Groq client not initialized")\<close>\<close>
  | OpenAIClientNotInitialized   \<comment> \<open>\<open>ValueError("OpenAI client not initialized")\<close>\<close>

text \<open>The last block of the quality branch (``Fallback to best available'').\<close>

definition best_available :: "ModelType list \<Rightarrow> ModelType" where
  "best_available av =
     (if OPENAI_GPT4_TURBO \<in> set av then OPENAI_GPT4_TURBO
      else if OPENAI_GPT4 \<in> set av then OPENAI_GPT4
      else if GROQ_MIXTRAL \<in> set av then GROQ_MIXTRAL
      else GROQ_LLAMA)"

definition select_best_model ::
  "ModelType list \<Rightarrow> ContentType \<Rightarrow> pystr \<Rightarrow> bool \<Rightarrow> error + ModelType" where
  "select_best_model av content_type complexity speed_priority =
     (if av = [] then Inl NoModelsAvailable
      else if speed_priority then
        (if GROQ_LLAMA \<in> set av then Inr GROQ_LLAMA
         else if GROQ_GEMMA \<in> set av then Inr GROQ_GEMMA
         else if GROQ_MIXTRAL \<in> set av then Inr GROQ_MIXTRAL
         else if OPENAI_GPT35 \<in> set av then Inr OPENAI_GPT35
         else Inr OPENAI_GPT4)
      else
        (case content_type of
           TECHNICAL \<Rightarrow>
             (if complexity = u ''advanced'' \<and> OPENAI_GPT4_TURBO \<in> set av
                then Inr OPENAI_GPT4_TURBO
              else if OPENAI_GPT4 \<in> set av then Inr OPENAI_GPT4
              else if GROQ_MIXTRAL \<in> set av then Inr GROQ_MIXTRAL
              else Inr (best_available av))
         | CREATIVE \<Rightarrow>
             (if OPENAI_GPT4_TURBO \<in> set av then Inr OPENAI_GPT4_TURBO
              else if OPENAI_GPT4 \<in> set av then Inr OPENAI_GPT4
              else if GROQ_MIXTRAL \<in> set av then Inr GROQ_MIXTRAL
              else Inr (best_available av))
         | EDUCATIONAL \<Rightarrow>
             (if GROQ_MIXTRAL \<in> set av then Inr GROQ_MIXTRAL
              else if OPENAI_GPT4 \<in> set av then Inr OPENAI_GPT4
              else if GROQ_GEMMA \<in> set av then Inr GROQ_GEMMA
              else Inr (best_available av))
         | ANALYTICAL \<Rightarrow> Inr (best_available av)))"

section \<open>JSON values\<close>

text \<open>
  What \<open>json.loads\<close> returns and what the content functions build: \<open>None\<close>, a bool, an
  int, a float (kept as its literal text: no arithmetic is done on it), a string, a list
  or a dict (an association list in insertion order).
\<close>

datatype json =
    JNull
  | JBool bool
  | JInt int
  | JFloat pystr
  | JStr pystr
  | JArr "json list"
  | JObj "(pystr \<times> json) list"

section \<open>JobCoordinator: \<open>ProcessingStatus\<close> and \<open>process_content_generation\<close>\<close>

record result_data =
  audio_path :: pystr
  video_path :: pystr
  text_path :: pystr
  sections :: json

record ProcessingStatus =
  job_id :: pystr
  status :: pystr
  progress :: int
  message :: pystr
  result_data :: "result_data option"
  error :: "pystr option"

text \<open>\<open>ProcessingStatus.update_status\<close>: the \<open>error\<close> field is not among the fields it
  assigns. The result dict passed by the caller has four keys, so it is truthy whenever
  it is given.\<close>

definition update_status ::
  "pystr \<Rightarrow> int \<Rightarrow> pystr \<Rightarrow> result_data option \<Rightarrow> ProcessingStatus \<Rightarrow> ProcessingStatus" where
  "update_status st pr msg rd j =
     (let j' = j\<lparr>status := st, progress := pr, message := msg\<rparr>
      in case rd of None \<Rightarrow> j' | Some r \<Rightarrow> j'\<lparr>result_data := Some r\<rparr>)"

text \<open>The job as \<open>generate_content\<close> registers it.\<close>

definition new_job :: "pystr \<Rightarrow> ProcessingStatus" where
  "new_job jid =
     \<lparr>job_id = jid, status = u ''started'', progress = 0,
      message = u ''Starting content generation...'',
      result_data = None, error = None\<rparr>"

text \<open>
  The result of an awaited stage: it raised an exception, of which the handler only uses
  \<open>str(e)\<close>, or it returned a value.
\<close>

datatype 'a outcome = Raised pystr | Returned 'a

text \<open>
  The stages of the pipeline, as the background task sees them: the content generator,
  the block that writes \<open>explanation.txt\<close>, the speech synthesizer, the loop that renders
  one image per section, and the video assembler.
\<close>

record stage_results =
  content :: "json outcome"
  saved :: "unit outcome"
  audio :: "pystr outcome"
  animations :: "pystr list outcome"
  video :: "pystr outcome"

text \<open>The \<open>except Exception as e\<close> handler of the task.\<close>

definition failed :: "pystr \<Rightarrow> ProcessingStatus \<Rightarrow> ProcessingStatus" where
  "failed e j =
     update_status (u ''failed'') (progress j) (u ''Content generation failed: '' @ e) None j"

text \<open>\<open>type(x).__name__\<close>, as it appears in the text of an \<open>AttributeError\<close>.\<close>

fun type_name :: "json \<Rightarrow> pystr" where
  "type_name JNull = u ''NoneType''"
| "type_name (JBool _) = u ''bool''"
| "type_name (JInt _) = u ''int''"
| "type_name (JFloat _) = u ''float''"
| "type_name (JStr _) = u ''str''"
| "type_name (JArr _) = u ''list''"
| "type_name (JObj _) = u ''dict''"

text \<open>\<open>explanation_data.get(key, default)\<close>: only a dict has \<open>get\<close>.\<close>

definition data_get :: "json \<Rightarrow> pystr \<Rightarrow> json \<Rightarrow> json outcome" where
  "data_get d k dflt =
     (case d of
        JObj kvs \<Rightarrow> Returned (case map_of kvs k of None \<Rightarrow> dflt | Some v \<Rightarrow> v)
      | _ \<Rightarrow> Raised (u [CHR 0x27] @ type_name d @ u [CHR 0x27]
                       @ u '' object has no attribute '' @ u [CHR 0x27] @ u ''get'' @ u [CHR 0x27]))"

text \<open>
  \<open>process_content_generation\<close>: the successive values of \<open>processing_jobs[job_id]\<close>,
  starting with the one found in the registry and followed by one entry for each
  \<open>update_status\<close> call, in the order of the calls.
\<close>

definition process_content_generation ::
  "stage_results \<Rightarrow> pystr \<Rightarrow> ProcessingStatus \<Rightarrow> ProcessingStatus list" where
  "process_content_generation st output_dir j0 =
     (let j1 = update_status (u ''generating_text'') 10 (u ''Generating explanation text...'') None j0
      in case content st of
           Raised e \<Rightarrow> [j0, j1, failed e j1]
         | Returned explanation_data \<Rightarrow>
      (case data_get explanation_data (u ''summary'') (JStr (u ''N/A'')) of
           Raised e \<Rightarrow> [j0, j1, failed e j1]
         | Returned _ \<Rightarrow>
      (case saved st of
           Raised e \<Rightarrow> [j0, j1, failed e j1]
         | Returned _ \<Rightarrow>
      (let j2 = update_status (u ''generating_audio'') 30 (u ''Converting text to speech...'') None j1
       in case audio st of
           Raised e \<Rightarrow> [j0, j1, j2, failed e j2]
         | Returned audio_file \<Rightarrow>
      (let j3 = update_status (u ''generating_animations'') 50 (u ''Creating animated visuals...'') None j2
       in case data_get explanation_data (u ''sections'') (JArr []) of
           Raised e \<Rightarrow> [j0, j1, j2, j3, failed e j3]
         | Returned section_list \<Rightarrow>
      (case animations st of
           Raised e \<Rightarrow> [j0, j1, j2, j3, failed e j3]
         | Returned animation_paths \<Rightarrow>
      (let j4 = update_status (u ''combining_video'') 80 (u ''Combining audio and visuals...'') None j3
       in case video st of
           Raised e \<Rightarrow> [j0, j1, j2, j3, j4, failed e j4]
         | Returned final_video_file \<Rightarrow>
      (let j5 = update_status (u ''completed'') 100 (u ''Content generation completed successfully!'')
                  (Some \<lparr>audio_path = audio_file, video_path = final_video_file,
                         text_path = output_dir @ u ''/explanation.txt'',
                         sections = section_list\<rparr>) j4
       in [j0, j1, j2, j3, j4, j5]))))))))"

section \<open>VideoAssembler, primary path: the clips of \<open>_create_moviepy_video\<close>\<close>

text \<open>
  Durations are Python floats in the source; they are real numbers here, so the formula
  is the source's expression without rounding. \<open>exists\<close> stands for \<open>os.path.exists\<close>.
\<close>

datatype clip =
    ImageClip pystr real   \<comment> \<open>image path and duration, resized to 1920 x 1080\<close>
  | ColorClip real         \<comment> \<open>background of colour (30, 41, 59), 1920 x 1080, with its duration\<close>

fun clip_duration :: "clip \<Rightarrow> real" where
  "clip_duration (ImageClip _ d) = d"
| "clip_duration (ColorClip d) = d"

definition transition_duration :: real where
  "transition_duration = 0.5"

definition image_clips :: "(pystr \<Rightarrow> bool) \<Rightarrow> real \<Rightarrow> pystr list \<Rightarrow> clip list" where
  "image_clips exists audio_duration animation_paths =
     (if animation_paths \<noteq> [] then
        (let total_transition_time = (real (length animation_paths) - 1) * transition_duration;
             duration_per_image =
               (audio_duration - total_transition_time) / real (length animation_paths)
         in map (\<lambda>img_path. ImageClip img_path duration_per_image)
                (filter exists animation_paths))
      else [])"

text \<open>The video track before the audio is attached: the background clip when no image
  clip was made, the image clips to be concatenated otherwise.\<close>

definition video_track :: "(pystr \<Rightarrow> bool) \<Rightarrow> real \<Rightarrow> pystr list \<Rightarrow> clip list" where
  "video_track exists audio_duration animation_paths =
     (let video_clips = image_clips exists audio_duration animation_paths
      in if video_clips = [] then [ColorClip audio_duration] else video_clips)"

section \<open>Properties of the model selector\<close>

text \<open>
  Claim C10. The selector does not guarantee that its result is one of the available
  models: with only \<open>OPENAI_GPT4_TURBO\<close> available and \<open>speed_priority\<close> set, whatever
  the content type and complexity, the last \<open>else\<close> of the speed branch returns
  \<open>OPENAI_GPT4\<close>, which is not in the available list (and the list is not empty).
\<close>

theorem select_best_model_not_member:
  "select_best_model [OPENAI_GPT4_TURBO] content_type complexity True = Inr OPENAI_GPT4
   \<and> OPENAI_GPT4 \<notin> set [OPENAI_GPT4_TURBO]
   \<and> [OPENAI_GPT4_TURBO] \<noteq> []"
  by (simp add: select_best_model_def)

section \<open>Properties of the job coordinator\<close>

lemma progress_update_status [simp]: "progress (update_status st pr msg rd j) = pr"
  by (simp add: update_status_def Let_def split: option.split)

lemma status_update_status [simp]: "status (update_status st pr msg rd j) = st"
  by (simp add: update_status_def Let_def split: option.split)

lemma message_update_status [simp]: "message (update_status st pr msg rd j) = msg"
  by (simp add: update_status_def Let_def split: option.split)

lemma error_update_status [simp]: "error (update_status st pr msg rd j) = error j"
  by (simp add: update_status_def Let_def split: option.split)

lemma status_names_differ [simp]:
  "u ''started'' \<noteq> u ''failed''" "u ''generating_text'' \<noteq> u ''failed''"
  "u ''generating_audio'' \<noteq> u ''failed''" "u ''generating_animations'' \<noteq> u ''failed''"
  "u ''combining_video'' \<noteq> u ''failed''" "u ''completed'' \<noteq> u ''failed''"
  by (simp_all add: u_def)

text \<open>
  Claim C7. Whatever the stages do, the progress values that a job takes during its
  background execution never decrease, and the values taken while the job is not failed
  are an initial part of the fixed checkpoints 0, 10, 30, 50, 80, 100, in that order.
\<close>

theorem progress_monotone:
  "sorted (map progress (process_content_generation st dir (new_job jid)))
   \<and> prefix (map progress (filter (\<lambda>j. status j \<noteq> u ''failed'')
                (process_content_generation st dir (new_job jid))))
            [0, 10, 30, 50, 80, 100]"
  by (simp add: process_content_generation_def failed_def new_job_def Let_def
           split: outcome.split)

text \<open>
  Claim C8, at a job whose first stage raises an exception with text \<open>e\<close>: the job ends
  with status \<open>failed\<close> and with the progress it had when the exception occurred (10), but
  the exception text is stored in \<open>message\<close>, behind a fixed prefix, and the \<open>error\<close>
  field is still \<open>None\<close>.
\<close>

theorem failed_job_error_unset:
  "(let j = last (process_content_generation (st\<lparr>content := Raised e\<rparr>) dir (new_job jid))
    in status j = u ''failed'' \<and> progress j = 10
       \<and> message j = u ''Content generation failed: '' @ e
       \<and> error j = None)"
  by (simp add: process_content_generation_def failed_def new_job_def Let_def)

section \<open>Properties of the primary assembly path\<close>

text \<open>
  Claim C9. For an audio of duration \<open>D\<close> and a non-empty list of \<open>N\<close> slide images, every
  slide clip that is made has duration \<open>(D - (N - 1) * 0.5) / N\<close>; for an empty list the
  video track is one background clip of duration exactly \<open>D\<close>.
\<close>

theorem slide_clip_durations:
  "(animation_paths \<noteq> [] \<longrightarrow>
      (\<forall>c \<in> set (image_clips exists D animation_paths).
         clip_duration c = (D - (real (length animation_paths) - 1) * 0.5)
                             / real (length animation_paths)))
   \<and> video_track exists D [] = [ColorClip D]"
  by (auto simp add: image_clips_def video_track_def transition_duration_def Let_def)

theorem slide_clip_durations_witness:
  "[u ''a.png'', u ''b.png''] \<noteq> []
   \<and> image_clips (\<lambda>p. True) 20 [u ''a.png'', u ''b.png'']
       = [ImageClip (u ''a.png'') (39 / 4), ImageClip (u ''b.png'') (39 / 4)]
   \<and> list_all (\<lambda>c. clip_duration c = (20 - (real (length [u ''a.png'', u ''b.png'']) - 1) * 0.5)
                             / real (length [u ''a.png'', u ''b.png'']))
        (image_clips (\<lambda>p. True) 20 [u ''a.png'', u ''b.png''])
   \<and> video_track (\<lambda>p. True) 20 [] = [ColorClip 20]"
  using slide_clip_durations [of "[u ''a.png'', u ''b.png'']" "\<lambda>p. True" 20]
  by (simp add: image_clips_def transition_duration_def Let_def)

end
